theory Spec2Isabelle
  imports Main "HOL-Library.Sublist"
begin

section \<open>Path splitting and normalisation\<close>

text \<open>
  Python text is modelled as \<^typ>\<open>string\<close>; a character stands for one code unit of the
  Python string, and only equality of characters is used by the functions below.
  The \<open>lru_cache\<close> decorators of the source memoise pure functions and are transparent.
\<close>

text \<open>\<open>str.split(sep)\<close> for a one-character separator: never the empty list.\<close>

fun split_on :: "char \<Rightarrow> string \<Rightarrow> string list" where
  "split_on c [] = [[]]"
| "split_on c (x # xs) =
     (if x = c then [] # split_on c xs
      else (x # hd (split_on c xs)) # tl (split_on c xs))"

text \<open>\<open>str.lstrip(c)\<close>, \<open>str.rstrip(c)\<close> and \<open>str.strip(c)\<close>: every leading (trailing)
  occurrence of the character is removed.\<close>

definition lstrip :: "char \<Rightarrow> string \<Rightarrow> string" where
  "lstrip c s = dropWhile (\<lambda>x. x = c) s"

definition rstrip :: "char \<Rightarrow> string \<Rightarrow> string" where
  "rstrip c s = rev (dropWhile (\<lambda>x. x = c) (rev s))"

definition strip :: "char \<Rightarrow> string \<Rightarrow> string" where
  "strip c s = rstrip c (lstrip c s)"

text \<open>One iteration of the loop of \<open>split_path_info\<close> over the list \<open>clean\<close>.\<close>

definition clean_step :: "string list \<Rightarrow> string \<Rightarrow> string list" where
  "clean_step clean segment =
     (if segment = [] \<or> segment = ''.'' then clean
      else if segment = ''..'' then (if clean \<noteq> [] then butlast clean else clean)
      else clean @ [segment])"

definition split_path_info :: "string \<Rightarrow> string list" where
  "split_path_info path =
     foldl clean_step [] (split_on CHR ''/'' (strip CHR ''/'' path))"

subsection \<open>The normalisation as the specification words it\<close>

text \<open>Strip exactly one leading and one trailing \<open>/\<close>.\<close>

definition strip_one_leading :: "string \<Rightarrow> string" where
  "strip_one_leading s = (case s of [] \<Rightarrow> [] | x # xs \<Rightarrow> if x = CHR ''/'' then xs else s)"

definition strip_one_trailing :: "string \<Rightarrow> string" where
  "strip_one_trailing s = (if s \<noteq> [] \<and> last s = CHR ''/'' then butlast s else s)"

text \<open>For each segment in order: discard it if empty or \<open>.\<close>; on \<open>..\<close> remove the last
  accumulated segment (nothing happens when none is accumulated); otherwise append it.\<close>

fun normalize_segments :: "string list \<Rightarrow> string list \<Rightarrow> string list" where
  "normalize_segments acc [] = acc"
| "normalize_segments acc (seg # segs) =
     (if seg = [] \<or> seg = ''.'' then normalize_segments acc segs
      else if seg = ''..'' then
        (case rev acc of [] \<Rightarrow> normalize_segments [] segs
         | _ # racc \<Rightarrow> normalize_segments (rev racc) segs)
      else normalize_segments (acc @ [seg]) segs)"

definition normalize_spec :: "string \<Rightarrow> string list" where
  "normalize_spec p =
     normalize_segments [] (split_on CHR ''/'' (strip_one_trailing (strip_one_leading p)))"


section \<open>Python values, errors and the external collaborators\<close>

text \<open>
  Values that occur as \<open>__name__\<close> attributes and as path segments: text, bytes (one
  character per byte), and the other values the quoting code converts with \<open>str\<close>, of
  which \<open>None\<close> and the integers are modelled. On these values HOL equality is Python's
  \<open>==\<close>, so the dictionaries and memoisation keyed on them behave as maps.
\<close>

datatype other = ONone | OInt int

datatype pyval = PStr string | PBytes string | PObj other

text \<open>Truth value of a Python value, as \<open>x or ''\<close> tests it.\<close>

fun truthy :: "pyval \<Rightarrow> bool" where
  "truthy (PStr s) = (s \<noteq> [])"
| "truthy (PBytes b) = (b \<noteq> [])"
| "truthy (PObj ONone) = False"
| "truthy (PObj (OInt i)) = (i \<noteq> 0)"

fun nat_to_dec :: "nat \<Rightarrow> string" where
  "nat_to_dec n =
     (if n < 10 then [char_of (48 + n)]
      else nat_to_dec (n div 10) @ [char_of (48 + n mod 10)])"

text \<open>The builtin \<open>str\<close> on the values that are neither text nor bytes.\<close>

fun py_str :: "other \<Rightarrow> string" where
  "py_str ONone = ''None''"
| "py_str (OInt i) = (if i < 0 then CHR ''-'' # nat_to_dec (nat (- i)) else nat_to_dec (nat i))"

text \<open>A \<open>UnicodeDecodeError\<close> with its five attributes.\<close>

record unicode_error =
  err_encoding :: string
  err_object :: string
  err_start :: nat
  err_end :: nat
  err_reason :: string

type_synonym ref = nat

text \<open>The exceptions that leave the functions of the module. \<open>KeyError\<close> carries the
  context and the view name its message is formatted from.\<close>

datatype error =
    URLDecodeError string string nat nat string
  | UnicodeDecodeError unicode_error
  | UnicodeEncodeError
  | TypeError
  | KeyError ref string

text \<open>A resource: its \<open>__name__\<close>, its \<open>__parent__\<close> (\<open>None\<close> at a root), and its
  \<open>__getitem__\<close> when it has one. A lookup either returns a child or raises
  \<open>KeyError\<close> (\<open>None\<close>). Resources are objects with identity: a store maps each
  reference to the attributes of the object.\<close>

record resource =
  node_name :: pyval
  node_parent :: "ref option"
  node_getitem :: "(string \<Rightarrow> ref option) option"

type_synonym store = "ref \<Rightarrow> resource"

text \<open>The request as the traverser reads it: \<open>matchdict\<close> (with its optional
  \<open>traverse\<close> and \<open>subpath\<close> entries, each a string or a sequence of strings), the
  outcome of reading the \<open>path_info\<close> property, and the value of the virtual-root
  key of the environment when it is present.\<close>

datatype str_or_seq = AStr string | ASeq "string list"

record route_match =
  md_traverse :: "str_or_seq option"
  md_subpath :: "str_or_seq option"

datatype path_info_outcome =
    PathInfo string
  | PathInfoKeyError
  | PathInfoDecodeError unicode_error

record request =
  matchdict :: "route_match option"
  path_info :: path_info_outcome
  vh_root :: "string option"

text \<open>The functions the module takes from libraries outside the repository are
  parameters of the model: \<open>url_quote\<close> (text and safe characters to quoted text), the
  UTF-8 decoding of bytes, \<open>unquote_bytes_to_wsgi\<close>, and the request factory's
  \<open>blank\<close>.\<close>

record env =
  url_quote :: "string \<Rightarrow> string \<Rightarrow> string"
  decode_utf8 :: "string \<Rightarrow> unicode_error + string"
  unquote_bytes_to_wsgi :: "string \<Rightarrow> string"
  request_blank :: "string \<Rightarrow> request"

definition is_ascii :: "string \<Rightarrow> bool" where
  "is_ascii s = list_all (\<lambda>ch. of_char ch < (128 :: nat)) s"

text \<open>Modelled from the spec: \<open>ascii_native_\<close> (module \<open>pyramid.compat\<close>) is not among
  the sources. As the comment in \<open>traverse\<close> and the documentation of
  \<open>traversal_path\<close> word it, the text must be encodable as ASCII and is returned as it
  is; otherwise a \<open>UnicodeEncodeError\<close> is raised.\<close>

definition ascii_native :: "string \<Rightarrow> error + string" where
  "ascii_native s = (if is_ascii s then Inr s else Inl UnicodeEncodeError)"

text \<open>Modelled from the spec: \<open>decode_path_info\<close> (module \<open>pyramid.compat\<close>) is not among
  the sources. As the documentation of \<open>traversal_path_info\<close> words it, the path is
  encoded to bytes with Latin-1 (the identity on one-byte characters) and the bytes are
  decoded as UTF-8.\<close>

definition decode_path_info :: "env \<Rightarrow> string \<Rightarrow> unicode_error + string" where
  "decode_path_info e path = decode_utf8 e path"

text \<open>Modelled from the spec: \<open>native_\<close> (module \<open>pyramid.compat\<close>) is not among the
  sources. Text is returned as it is, bytes are decoded with the given encoding (UTF-8
  here), and any other value is a type error.\<close>

fun native_utf8 :: "env \<Rightarrow> pyval \<Rightarrow> error + string" where
  "native_utf8 e (PStr s) = Inr s"
| "native_utf8 e (PBytes b) =
     (case decode_utf8 e b of Inl u \<Rightarrow> Inl (UnicodeDecodeError u) | Inr s \<Rightarrow> Inr s)"
| "native_utf8 e (PObj ob) = Inl TypeError"

definition PATH_SEGMENT_SAFE :: string where
  "PATH_SEGMENT_SAFE = ''~!$&'()*+,;=:@''"

definition slash :: string where
  "slash = ''/''"

definition VIEW_SELECTOR :: string where
  "VIEW_SELECTOR = ''@@''"

section \<open>Lineage and path tuples\<close>

text \<open>Modelled from the spec: \<open>lineage\<close> (module \<open>pyramid.location\<close>) is not among the
  sources. It produces the node, then its parent, then its grandparent, and ends after
  the node whose parent is none. On a cyclic parent chain it does not return
  (\<open>None\<close>).\<close>

partial_function (option) lineage :: "store \<Rightarrow> ref \<Rightarrow> ref list option" where
  "lineage st r =
     (case node_parent (st r) of
        None \<Rightarrow> Some [r]
      | Some p \<Rightarrow> Option.bind (lineage st p) (\<lambda>l. Some (r # l)))"

definition find_root :: "store \<Rightarrow> ref \<Rightarrow> ref option" where
  "find_root st resource =
     Option.bind (lineage st resource) (\<lambda>chain.
       Some (case find (\<lambda>location. node_parent (st location) = None) chain of
               Some location \<Rightarrow> location
             | None \<Rightarrow> resource))"

definition resource_path_list :: "store \<Rightarrow> ref \<Rightarrow> pyval list \<Rightarrow> pyval list option" where
  "resource_path_list st resource elements =
     Option.bind (lineage st resource) (\<lambda>chain.
       Some (rev (map (\<lambda>loc. if truthy (node_name (st loc)) then node_name (st loc)
                               else PStr []) chain) @ elements))"

definition resource_path_tuple :: "store \<Rightarrow> ref \<Rightarrow> pyval list \<Rightarrow> pyval list option" where
  "resource_path_tuple st resource elements = resource_path_list st resource elements"

section \<open>Quoting and joining\<close>

text \<open>The module-level dictionary \<open>_segment_cache\<close>, keyed on the pair of segment and
  safe characters. It is state: every function that quotes takes it and returns it.\<close>

type_synonym cache = "(pyval \<times> string) \<Rightarrow> string option"

definition quote_path_segment ::
  "env \<Rightarrow> cache \<Rightarrow> pyval \<Rightarrow> string \<Rightarrow> (error + string) \<times> cache" where
  "quote_path_segment e c segment safe =
     (case c (segment, safe) of
        Some r \<Rightarrow> (Inr r, c)
      | None \<Rightarrow>
          (let segment' = (case segment of PObj ob \<Rightarrow> PStr (py_str ob) | _ \<Rightarrow> segment)
           in case native_utf8 e segment' of
                Inl err \<Rightarrow> (Inl err, c)
              | Inr text \<Rightarrow>
                  (let result = url_quote e text safe
                   in (Inr result, c((segment', safe) \<mapsto> result)))))"

text \<open>The list comprehension of \<open>_join_path_tuple\<close>: the segments are quoted from left to
  right, and the first exception ends it.\<close>

fun quote_segments :: "env \<Rightarrow> cache \<Rightarrow> pyval list \<Rightarrow> (error + string list) \<times> cache" where
  "quote_segments e c [] = (Inr [], c)"
| "quote_segments e c (x # xs) =
     (case quote_path_segment e c x PATH_SEGMENT_SAFE of
        (Inl err, c') \<Rightarrow> (Inl err, c')
      | (Inr q, c') \<Rightarrow>
          (case quote_segments e c' xs of
             (Inl err, c'') \<Rightarrow> (Inl err, c'')
           | (Inr qs, c'') \<Rightarrow> (Inr (q # qs), c'')))"

text \<open>\<open>sep.join(xs)\<close>.\<close>

fun join_str :: "string \<Rightarrow> string list \<Rightarrow> string" where
  "join_str sep [] = []"
| "join_str sep [x] = x"
| "join_str sep (x # y # ys) = x @ sep @ join_str sep (y # ys)"

text \<open>\<open>_join_path_tuple\<close>: \<open>tuple and '/'.join([...]) or '/'\<close>.\<close>

definition join_path_tuple :: "env \<Rightarrow> cache \<Rightarrow> pyval list \<Rightarrow> (error + string) \<times> cache" where
  "join_path_tuple e c tuple =
     (if tuple = [] then (Inr ''/'', c)
      else (case quote_segments e c tuple of
              (Inl err, c') \<Rightarrow> (Inl err, c')
            | (Inr qs, c') \<Rightarrow>
                (if join_str ''/'' qs \<noteq> [] then (Inr (join_str ''/'' qs), c')
                 else (Inr ''/'', c'))))"

definition resource_path ::
  "env \<Rightarrow> cache \<Rightarrow> store \<Rightarrow> ref \<Rightarrow> pyval list \<Rightarrow> ((error + string) \<times> cache) option" where
  "resource_path e c st resource elements =
     Option.bind (resource_path_tuple st resource elements) (\<lambda>t.
       Some (join_path_tuple e c t))"

section \<open>Decoding entry points\<close>

definition traversal_path_info :: "env \<Rightarrow> string \<Rightarrow> error + string list" where
  "traversal_path_info e path =
     (case decode_path_info e path of
        Inl u \<Rightarrow> Inl (URLDecodeError (err_encoding u) (err_object u) (err_start u)
                        (err_end u) (err_reason u))
      | Inr p \<Rightarrow> Inr (split_path_info p))"

text \<open>\<open>traversal_path\<close> takes text or bytes; text is first encoded as ASCII, which fails
  on a character beyond 127.\<close>

datatype text_or_bytes = Text string | Raw string

definition traversal_path :: "env \<Rightarrow> text_or_bytes \<Rightarrow> error + string list" where
  "traversal_path e path =
     (case path of
        Text s \<Rightarrow>
          (if is_ascii s
           then traversal_path_info e (unquote_bytes_to_wsgi e s)
           else Inl UnicodeEncodeError)
      | Raw b \<Rightarrow> traversal_path_info e (unquote_bytes_to_wsgi e b))"

section \<open>The traverser\<close>

text \<open>The dictionary the traverser returns.\<close>

record resolution =
  res_context :: ref
  res_view_name :: string
  res_subpath :: "string list"
  res_traversed :: "string list"
  res_virtual_root :: ref
  res_virtual_root_path :: "string list"
  res_root :: ref

text \<open>The slice \<open>xs[:k]\<close>: a negative bound counts from the end.\<close>

definition slice_to :: "int \<Rightarrow> 'a list \<Rightarrow> 'a list" where
  "slice_to k xs =
     (if 0 \<le> k then take (nat k) xs else take (length xs - nat (- k)) xs)"

text \<open>The path and the subpath the traverser starts from: from the matchdict when the
  request matched a route, from \<open>path_info\<close> otherwise.\<close>

definition request_path :: "request \<Rightarrow> error + (string \<times> string list)" where
  "request_path req =
     (case matchdict req of
        Some md \<Rightarrow>
          (let path0 = (case md_traverse md of
                          None \<Rightarrow> AStr slash
                        | Some (AStr s) \<Rightarrow> if s \<noteq> [] then AStr s else AStr slash
                        | Some (ASeq xs) \<Rightarrow> if xs \<noteq> [] then ASeq xs else AStr slash);
               path = (case path0 of
                         ASeq xs \<Rightarrow> ''/'' @ join_str slash xs
                       | AStr s \<Rightarrow> s);
               subpath = (case md_subpath md of
                            None \<Rightarrow> []
                          | Some (ASeq xs) \<Rightarrow> xs
                          | Some (AStr s) \<Rightarrow> split_path_info s)
           in Inr (path, subpath))
      | None \<Rightarrow>
          (case path_info req of
             PathInfo p \<Rightarrow> Inr (if p \<noteq> [] then p else slash, [])
           | PathInfoKeyError \<Rightarrow> Inr (slash, [])
           | PathInfoDecodeError u \<Rightarrow>
               Inl (URLDecodeError (err_encoding u) (err_object u) (err_start u)
                      (err_end u) (err_reason u))))"

text \<open>The virtual-root prefix: the tuple of the header, the combined path and the index
  \<open>vroot_idx\<close>. The header is decoded outside any handler, so a failure leaves as
  \<open>UnicodeDecodeError\<close>.\<close>

definition vroot_prefix ::
  "env \<Rightarrow> request \<Rightarrow> string \<Rightarrow> error + (string list \<times> string \<times> int)" where
  "vroot_prefix e req path =
     (case vh_root req of
        Some header \<Rightarrow>
          (case decode_path_info e header of
             Inl u \<Rightarrow> Inl (UnicodeDecodeError u)
           | Inr vroot_path \<Rightarrow>
               Inr (split_path_info vroot_path, vroot_path @ path,
                    int (length (split_path_info vroot_path)) - 1))
      | None \<Rightarrow> Inr ([], path, - 1))"

text \<open>The loop over \<open>vpath_tuple\<close>: it either returns a dictionary from inside the loop
  or runs out of segments with the current object and virtual root.\<close>

datatype walk_outcome = Stopped resolution | Exhausted ref ref

fun walk ::
  "store \<Rightarrow> string list \<Rightarrow> int \<Rightarrow> string list \<Rightarrow> ref \<Rightarrow>
   string list \<Rightarrow> nat \<Rightarrow> ref \<Rightarrow> ref \<Rightarrow> walk_outcome" where
  "walk st vpath_tuple vroot_idx vroot_tuple root [] i ob vroot = Exhausted ob vroot"
| "walk st vpath_tuple vroot_idx vroot_tuple root (segment # rest) i ob vroot =
     (if take 2 segment = VIEW_SELECTOR then
        Stopped \<lparr>res_context = ob, res_view_name = drop 2 segment,
                 res_subpath = drop (i + 1) vpath_tuple,
                 res_traversed = slice_to (vroot_idx + int i + 1) vpath_tuple,
                 res_virtual_root = vroot, res_virtual_root_path = vroot_tuple,
                 res_root = root\<rparr>
      else
        (case node_getitem (st ob) of
           None \<Rightarrow>
             Stopped \<lparr>res_context = ob, res_view_name = segment,
                      res_subpath = drop (i + 1) vpath_tuple,
                      res_traversed = slice_to (vroot_idx + int i + 1) vpath_tuple,
                      res_virtual_root = vroot, res_virtual_root_path = vroot_tuple,
                      res_root = root\<rparr>
         | Some getitem \<Rightarrow>
             (case getitem segment of
                None \<Rightarrow>
                  Stopped \<lparr>res_context = ob, res_view_name = segment,
                           res_subpath = drop (i + 1) vpath_tuple,
                           res_traversed = slice_to (vroot_idx + int i + 1) vpath_tuple,
                           res_virtual_root = vroot, res_virtual_root_path = vroot_tuple,
                           res_root = root\<rparr>
              | Some next \<Rightarrow>
                  walk st vpath_tuple vroot_idx vroot_tuple root rest (i + 1) next
                    (if int i = vroot_idx then next else vroot))))"

text \<open>\<open>ResourceTreeTraverser.__call__\<close> for the traverser whose root is \<open>root\<close>.\<close>

definition traverser_call :: "env \<Rightarrow> store \<Rightarrow> ref \<Rightarrow> request \<Rightarrow> error + resolution" where
  "traverser_call e st root req =
     (case request_path req of
        Inl err \<Rightarrow> Inl err
      | Inr (path, subpath) \<Rightarrow>
          (case vroot_prefix e req path of
             Inl err \<Rightarrow> Inl err
           | Inr (vroot_tuple, vpath, vroot_idx) \<Rightarrow>
               (if vpath = slash then
                  Inr \<lparr>res_context = root, res_view_name = [], res_subpath = subpath,
                       res_traversed = [], res_virtual_root = root,
                       res_virtual_root_path = vroot_tuple, res_root = root\<rparr>
                else
                  (case walk st (split_path_info vpath) vroot_idx vroot_tuple root
                          (split_path_info vpath) 0 root root of
                     Stopped d \<Rightarrow> Inr d
                   | Exhausted ob vroot \<Rightarrow>
                       Inr \<lparr>res_context = ob, res_view_name = [], res_subpath = subpath,
                            res_traversed = split_path_info vpath, res_virtual_root = vroot,
                            res_virtual_root_path = vroot_tuple, res_root = root\<rparr>))))"

section \<open>The module-level helpers\<close>

text \<open>The \<open>path\<close> argument of \<open>traverse\<close> and \<open>find_resource\<close>: a string or a
  sequence.\<close>

datatype path_arg = PathStr string | PathTuple "pyval list"

text \<open>\<open>traverse\<close>, with no traverser adapter registered for the resource, so that
  \<open>ResourceTreeTraverser\<close> is used. The outer \<open>None\<close> is a call that does not return
  (the search for the root on a cyclic parent chain).\<close>

definition traverse ::
  "env \<Rightarrow> cache \<Rightarrow> store \<Rightarrow> ref \<Rightarrow> path_arg \<Rightarrow> ((error + resolution) \<times> cache) option" where
  "traverse e c st resource path =
     (case (case path of
              PathTuple t \<Rightarrow> if t \<noteq> [] then join_path_tuple e c t else (Inr [], c)
            | PathStr s \<Rightarrow> (Inr s, c)) of
        (Inl err, c') \<Rightarrow> Some (Inl err, c')
      | (Inr path1, c') \<Rightarrow>
          (case ascii_native path1 of
             Inl err \<Rightarrow> Some (Inl err, c')
           | Inr path2 \<Rightarrow>
               Option.bind
                 (if path2 \<noteq> [] \<and> hd path2 = CHR ''/'' then find_root st resource
                  else Some resource)
                 (\<lambda>resource'.
                    Some (traverser_call e st resource' (request_blank e path2), c'))))"

definition find_resource ::
  "env \<Rightarrow> cache \<Rightarrow> store \<Rightarrow> ref \<Rightarrow> path_arg \<Rightarrow> ((error + ref) \<times> cache) option" where
  "find_resource e c st resource path =
     (case (case path of
              PathStr s \<Rightarrow> (case ascii_native s of
                             Inl err \<Rightarrow> Inl err
                           | Inr s' \<Rightarrow> Inr (PathStr s'))
            | PathTuple t \<Rightarrow> Inr (PathTuple t)) of
        Inl err \<Rightarrow> Some (Inl err, c)
      | Inr path' \<Rightarrow>
          Option.bind (traverse e c st resource path') (\<lambda>(outcome, c').
            (case outcome of
               Inl err \<Rightarrow> Some (Inl err, c')
             | Inr D \<Rightarrow>
                 (if res_view_name D \<noteq> []
                  then Some (Inl (KeyError (res_context D) (res_view_name D)), c')
                  else Some (Inr (res_context D), c')))))"

section \<open>The resource URL adapter\<close>

record resource_url =
  virtual_path :: string
  physical_path :: string
  virtual_path_tuple :: "pyval list"
  physical_path_tuple :: "pyval list"

text \<open>\<open>ResourceURL.__init__\<close>; the header is the raw value of the virtual-root key.\<close>

definition ResourceURL ::
  "env \<Rightarrow> cache \<Rightarrow> store \<Rightarrow> ref \<Rightarrow> string option \<Rightarrow> ((error + resource_url) \<times> cache) option" where
  "ResourceURL e c st resource vh =
     Option.bind (resource_path_tuple st resource []) (\<lambda>ppt0.
       (case join_path_tuple e c ppt0 of
          (Inl err, c') \<Rightarrow> Some (Inl err, c')
        | (Inr pp0, c') \<Rightarrow>
            (let ppt = (if ppt0 \<noteq> [PStr []] then ppt0 @ [PStr []] else ppt0);
                 pp = (if ppt0 \<noteq> [PStr []] then pp0 @ ''/'' else pp0);
                 trim = (case vh of
                           None \<Rightarrow> False
                         | Some vroot_path \<Rightarrow>
                             rstrip CHR ''/'' vroot_path \<noteq> []
                             \<and> prefix (rstrip CHR ''/'' vroot_path) pp);
                 vlen = (case vh of None \<Rightarrow> 0
                         | Some vroot_path \<Rightarrow> length (rstrip CHR ''/'' vroot_path));
                 numels = (case vh of None \<Rightarrow> 0
                           | Some vroot_path \<Rightarrow>
                               length (split_on CHR ''/'' (rstrip CHR ''/'' vroot_path)))
             in Some (Inr \<lparr>virtual_path = (if trim then drop vlen pp else pp),
                           physical_path = pp,
                           virtual_path_tuple =
                             (if trim then PStr [] # drop numels ppt else ppt),
                           physical_path_tuple = ppt\<rparr>, c'))))"

section \<open>Notions used to state the properties\<close>

text \<open>What quoting a segment computes when the cache has no entry for it.\<close>

definition quote_value :: "env \<Rightarrow> pyval \<Rightarrow> string \<Rightarrow> error + string" where
  "quote_value e segment safe =
     (case native_utf8 e (case segment of PObj ob \<Rightarrow> PStr (py_str ob) | _ \<Rightarrow> segment) of
        Inl err \<Rightarrow> Inl err
      | Inr text \<Rightarrow> Inr (url_quote e text safe))"

fun quote_values :: "env \<Rightarrow> pyval list \<Rightarrow> error + string list" where
  "quote_values e [] = Inr []"
| "quote_values e (x # xs) =
     (case quote_value e x PATH_SEGMENT_SAFE of
        Inl err \<Rightarrow> Inl err
      | Inr q \<Rightarrow> (case quote_values e xs of Inl err \<Rightarrow> Inl err | Inr qs \<Rightarrow> Inr (q # qs)))"

text \<open>The invariant of \<open>_segment_cache\<close>: every entry is keyed on text or bytes and holds
  what quoting that key computes. The empty dictionary satisfies it and
  \<open>quote_path_segment\<close> keeps it.\<close>

definition cache_ok :: "env \<Rightarrow> cache \<Rightarrow> bool" where
  "cache_ok e c =
     (\<forall>seg safe r. c (seg, safe) = Some r \<longrightarrow>
        (\<exists>s. seg = PStr s \<or> seg = PBytes s) \<and> quote_value e seg safe = Inr r)"

text \<open>The node reached from \<open>ob\<close> by looking the segments up in turn; \<open>None\<close> when a
  segment is a view selector, the node has no lookup, or the lookup has no entry.\<close>

fun descend :: "store \<Rightarrow> ref \<Rightarrow> string list \<Rightarrow> ref option" where
  "descend st ob [] = Some ob"
| "descend st ob (seg # segs) =
     (if take 2 seg = VIEW_SELECTOR then None
      else (case node_getitem (st ob) of
              None \<Rightarrow> None
            | Some getitem \<Rightarrow>
                (case getitem seg of None \<Rightarrow> None | Some next \<Rightarrow> descend st next segs)))"

text \<open>A request that matched no route, carries no virtual-root header, and whose
  \<open>path_info\<close> is the given text.\<close>

definition plain_request :: "string \<Rightarrow> request" where
  "plain_request p = \<lparr>matchdict = None, path_info = PathInfo p, vh_root = None\<rparr>"

definition vhost_request :: "string \<Rightarrow> string \<Rightarrow> request" where
  "vhost_request header p = \<lparr>matchdict = None, path_info = PathInfo p, vh_root = Some header\<rparr>"

text \<open>A name that survives the trip through a path string: a clean segment that holds
  no slash and does not begin with the view selector.\<close>

definition traversable_name :: "string \<Rightarrow> bool" where
  "traversable_name s =
     (s \<noteq> [] \<and> s \<noteq> ''.'' \<and> s \<noteq> ''..'' \<and> CHR ''/'' \<notin> set s \<and> take 2 s \<noteq> VIEW_SELECTOR)"

text \<open>A lineage (node first, root last) whose root has no name and in which every other
  node has a traversable text name under which its parent's lookup returns it.\<close>

fun linked :: "store \<Rightarrow> ref list \<Rightarrow> bool" where
  "linked st [] = False"
| "linked st [r] = (\<not> truthy (node_name (st r)))"
| "linked st (child # parent # rest) =
     ((case node_name (st child) of
         PStr s \<Rightarrow> traversable_name s
                   \<and> (case node_getitem (st parent) of
                         Some getitem \<Rightarrow> getitem s = Some child
                       | None \<Rightarrow> False)
       | _ \<Rightarrow> False)
      \<and> linked st (parent # rest))"

text \<open>The text names along a lineage, root side first, without the root's.\<close>

definition names_of :: "store \<Rightarrow> ref list \<Rightarrow> string list" where
  "names_of st chain =
     rev (map (\<lambda>r. case node_name (st r) of PStr s \<Rightarrow> s | _ \<Rightarrow> []) (butlast chain))"

text \<open>The unquoted path of a list of names: \<open>/\<close> before each name, and \<open>/\<close> alone for
  the empty list.\<close>

definition raw_path :: "string list \<Rightarrow> string" where
  "raw_path names = (if names = [] then ''/'' else concat (map (\<lambda>s. CHR ''/'' # s) names))"

section \<open>An instance of the collaborators and a resource tree for the examples\<close>

text \<open>Percent-encoding of text whose characters are below 128 (where UTF-8 is the
  identity): letters, digits, \<open>_.-~\<close> and the safe characters stay, any other
  character becomes \<open>%XX\<close>.\<close>

definition hex_digit :: "nat \<Rightarrow> char" where
  "hex_digit n = (if n < 10 then char_of (48 + n) else char_of (55 + n))"

definition unreserved :: "char \<Rightarrow> bool" where
  "unreserved ch =
     (let n = (of_char ch :: nat)
      in (48 \<le> n \<and> n \<le> 57) \<or> (65 \<le> n \<and> n \<le> 90) \<or> (97 \<le> n \<and> n \<le> 122)
         \<or> ch \<in> set ''_.-~'')"

definition sample_quote :: "string \<Rightarrow> string \<Rightarrow> string" where
  "sample_quote s safe =
     concat (map (\<lambda>ch. if unreserved ch \<or> ch \<in> set safe then [ch]
                        else [CHR ''%'', hex_digit (of_char ch div 16),
                              hex_digit (of_char ch mod 16)]) s)"

definition hex_value :: "char \<Rightarrow> nat option" where
  "hex_value ch =
     (let n = (of_char ch :: nat)
      in if 48 \<le> n \<and> n \<le> 57 then Some (n - 48)
         else if 65 \<le> n \<and> n \<le> 70 then Some (n - 55)
         else if 97 \<le> n \<and> n \<le> 102 then Some (n - 87)
         else None)"

fun sample_unquote :: "string \<Rightarrow> string" where
  "sample_unquote (p # h # l # rest) =
     (if p = CHR ''%'' then
        (case (hex_value h, hex_value l) of
           (Some a, Some b) \<Rightarrow> char_of (16 * a + b) # sample_unquote rest
         | _ \<Rightarrow> p # sample_unquote (h # l # rest))
      else p # sample_unquote (h # l # rest))"
| "sample_unquote s = s"

text \<open>A strict decoder standing in for UTF-8 in the examples: it returns ASCII input as
  it is and reports the first byte beyond 127 as an invalid start byte.\<close>

fun first_non_ascii :: "nat \<Rightarrow> string \<Rightarrow> nat option" where
  "first_non_ascii i [] = None"
| "first_non_ascii i (ch # rest) =
     (if of_char ch < (128 :: nat) then first_non_ascii (i + 1) rest else Some i)"

definition sample_decode :: "string \<Rightarrow> unicode_error + string" where
  "sample_decode b =
     (case first_non_ascii 0 b of
        None \<Rightarrow> Inr b
      | Some i \<Rightarrow> Inl \<lparr>err_encoding = ''utf-8'', err_object = b, err_start = i,
                        err_end = i + 1, err_reason = ''invalid start byte''\<rparr>)"

definition sample_blank :: "string \<Rightarrow> request" where
  "sample_blank path =
     \<lparr>matchdict = None,
      path_info = (case sample_decode (sample_unquote path) of
                     Inl u \<Rightarrow> PathInfoDecodeError u
                   | Inr p \<Rightarrow> PathInfo p),
      vh_root = None\<rparr>"

definition sample_env :: env where
  "sample_env = \<lparr>url_quote = sample_quote, decode_utf8 = sample_decode,
                 unquote_bytes_to_wsgi = sample_unquote, request_blank = sample_blank\<rparr>"

text \<open>The tree \<open>root \<rightarrow> vh \<rightarrow> root \<rightarrow> page\<close> of the specification's example, with a few
  more children: \<open>a\<close> (no lookup) under the root, \<open>x\<close> under \<open>vh\<close>, children of the root
  named \<open>@@edit\<close> and \<open>b/c\<close>, and a node \<open>orphan\<close> whose parent is the root although the
  root's lookup does not know it.\<close>

definition sample_lookup :: "(string \<times> ref) list \<Rightarrow> string \<Rightarrow> ref option" where
  "sample_lookup entries key = map_of entries key"

definition sample_store :: store where
  "sample_store r =
     (if r = 0 then \<lparr>node_name = PObj ONone, node_parent = None,
                      node_getitem = Some (sample_lookup
                        [(''a'', 1), (''vh'', 2), (''@@edit'', 6), (''b/c'', 7)])\<rparr>
      else if r = 1 then \<lparr>node_name = PStr ''a'', node_parent = Some 0, node_getitem = None\<rparr>
      else if r = 2 then \<lparr>node_name = PStr ''vh'', node_parent = Some 0,
                           node_getitem = Some (sample_lookup [(''root'', 3), (''x'', 5)])\<rparr>
      else if r = 3 then \<lparr>node_name = PStr ''root'', node_parent = Some 2,
                           node_getitem = Some (sample_lookup [(''page'', 4)])\<rparr>
      else if r = 4 then \<lparr>node_name = PStr ''page'', node_parent = Some 3, node_getitem = None\<rparr>
      else if r = 5 then \<lparr>node_name = PStr ''x'', node_parent = Some 2, node_getitem = None\<rparr>
      else if r = 6 then \<lparr>node_name = PStr ''@@edit'', node_parent = Some 0, node_getitem = None\<rparr>
      else if r = 7 then \<lparr>node_name = PStr ''b/c'', node_parent = Some 0, node_getitem = None\<rparr>
      else if r = 8 then \<lparr>node_name = PStr ''orphan'', node_parent = Some 0, node_getitem = None\<rparr>
      else \<lparr>node_name = PObj ONone, node_parent = None, node_getitem = None\<rparr>)"

definition clean_segment :: "string \<Rightarrow> bool" where
  "clean_segment s = (s \<noteq> [] \<and> s \<noteq> ''.'' \<and> s \<noteq> ''..'')"

section \<open>Properties of the splitter\<close>

lemma split_on_nonempty: "split_on c s \<noteq> []"
  by (induction s) auto

lemma split_on_snoc_sep: "split_on c (s @ [c]) = split_on c s @ [[]]"
proof (induction s)
  case Nil
  show ?case by simp
next
  case (Cons x xs)
  have ne: "split_on c xs \<noteq> []" by (rule split_on_nonempty)
  show ?case using Cons ne by (cases "split_on c xs") auto
qed

lemma clean_step_empty: "clean_step acc [] = acc"
  by (simp add: clean_step_def)

lemma fold_lstrip:
  "foldl clean_step acc (split_on CHR ''/'' (lstrip CHR ''/'' s)) =
   foldl clean_step acc (split_on CHR ''/'' s)"
  by (induction s) (auto simp: lstrip_def clean_step_empty)

lemma fold_rstrip:
  "foldl clean_step acc (split_on CHR ''/'' (rstrip CHR ''/'' s)) =
   foldl clean_step acc (split_on CHR ''/'' s)"
proof (induction s rule: rev_induct)
  case Nil
  show ?case by (simp add: rstrip_def)
next
  case (snoc x xs)
  show ?case
  proof (cases "x = CHR ''/''")
    case True
    have "rstrip CHR ''/'' (xs @ [x]) = rstrip CHR ''/'' xs"
      using True by (simp add: rstrip_def)
    then show ?thesis
      using snoc True by (simp add: split_on_snoc_sep clean_step_empty)
  next
    case False
    then show ?thesis by (simp add: rstrip_def)
  qed
qed

lemma fold_strip:
  "foldl clean_step acc (split_on CHR ''/'' (strip CHR ''/'' s)) =
   foldl clean_step acc (split_on CHR ''/'' s)"
  by (simp add: strip_def fold_rstrip fold_lstrip)

lemma fold_strip_one_leading:
  "foldl clean_step acc (split_on CHR ''/'' (strip_one_leading s)) =
   foldl clean_step acc (split_on CHR ''/'' s)"
  by (cases s) (auto simp: strip_one_leading_def clean_step_empty)

lemma fold_strip_one_trailing:
  "foldl clean_step acc (split_on CHR ''/'' (strip_one_trailing s)) =
   foldl clean_step acc (split_on CHR ''/'' s)"
proof (cases "s \<noteq> [] \<and> last s = CHR ''/''")
  case True
  then have s: "s = butlast s @ [CHR ''/'']"
    by (metis append_butlast_last_id)
  have "foldl clean_step acc (split_on CHR ''/'' (butlast s @ [CHR ''/''])) =
        foldl clean_step acc (split_on CHR ''/'' (butlast s))"
    by (simp only: split_on_snoc_sep foldl_append foldl.simps clean_step_empty)
  with s True show ?thesis by (simp add: strip_one_trailing_def)
next
  case False
  then show ?thesis by (auto simp: strip_one_trailing_def)
qed

lemma normalize_segments_foldl:
  "normalize_segments acc segs = foldl clean_step acc segs"
proof (induction segs arbitrary: acc)
  case Nil
  show ?case by simp
next
  case (Cons seg segs)
  show ?case
  proof (cases acc rule: rev_cases)
    case Nil
    then show ?thesis using Cons by (simp add: clean_step_def)
  next
    case (snoc ys y)
    then show ?thesis using Cons by (simp add: clean_step_def)
  qed
qed

lemma clean_step_clean:
  "list_all clean_segment acc \<Longrightarrow> list_all clean_segment (clean_step acc seg)"
  by (auto simp: clean_step_def clean_segment_def list_all_iff dest: in_set_butlastD)

lemma foldl_clean_step_clean:
  "list_all clean_segment acc \<Longrightarrow> list_all clean_segment (foldl clean_step acc segs)"
  by (induction segs arbitrary: acc) (simp_all add: clean_step_clean)

lemma split_path_info_clean: "list_all clean_segment (split_path_info p)"
  by (simp add: split_path_info_def foldl_clean_step_clean)

text \<open>
  C3. For every path string, \<open>split_path_info\<close> computes the normalisation the
  specification describes (strip one leading and one trailing slash, split on slashes,
  drop empty and \<open>.\<close> segments, let \<open>..\<close> remove the last accumulated segment); its result
  holds no empty, \<open>.\<close> or \<open>..\<close> entry; and the three stated examples evaluate as stated.
\<close>

theorem split_path_info_normalize:
  "split_path_info p = normalize_spec p
   \<and> list_all (\<lambda>s. s \<noteq> [] \<and> s \<noteq> ''.'' \<and> s \<noteq> ''..'') (split_path_info p)
   \<and> split_path_info ''/a/b/../c/'' = [''a'', ''c'']
   \<and> split_path_info ''/a/./b//c'' = [''a'', ''b'', ''c'']
   \<and> split_path_info ''/../a'' = [''a'']"
proof -
  have eq: "split_path_info p = normalize_spec p"
    by (simp add: split_path_info_def normalize_spec_def normalize_segments_foldl
        fold_strip fold_strip_one_trailing fold_strip_one_leading)
  have cl: "list_all (\<lambda>s. s \<noteq> [] \<and> s \<noteq> ''.'' \<and> s \<noteq> ''..'') (split_path_info p)"
    using split_path_info_clean [of p] by (simp add: clean_segment_def [abs_def])
  have e1: "split_path_info ''/a/b/../c/'' = [''a'', ''c'']"
    by (simp add: split_path_info_def strip_def lstrip_def rstrip_def clean_step_def)
  have e2: "split_path_info ''/a/./b//c'' = [''a'', ''b'', ''c'']"
    by (simp add: split_path_info_def strip_def lstrip_def rstrip_def clean_step_def)
  have e3: "split_path_info ''/../a'' = [''a'']"
    by (simp add: split_path_info_def strip_def lstrip_def rstrip_def clean_step_def)
  from eq cl e1 e2 e3 show ?thesis by blast
qed

section \<open>Properties of quoting and joining\<close>

lemma cache_ok_empty: "cache_ok e Map.empty"
  by (simp add: cache_ok_def)

lemma quote_path_segment_pure:
  assumes "cache_ok e c"
  shows "fst (quote_path_segment e c seg safe) = quote_value e seg safe"
proof (cases "c (seg, safe)")
  case None
  then show ?thesis
    by (auto simp: quote_path_segment_def quote_value_def Let_def split: sum.splits)
next
  case (Some r)
  with assms have "quote_value e seg safe = Inr r" by (auto simp: cache_ok_def)
  with Some show ?thesis by (simp add: quote_path_segment_def)
qed

lemma quote_path_segment_keeps:
  assumes "cache_ok e c"
  shows "cache_ok e (snd (quote_path_segment e c seg safe))"
proof (cases "c (seg, safe)")
  case (Some r)
  with assms show ?thesis by (simp add: quote_path_segment_def)
next
  case None
  show ?thesis
  proof (cases seg)
    case (PStr s)
    with None assms show ?thesis
      by (auto simp: quote_path_segment_def quote_value_def cache_ok_def Let_def)
  next
    case (PBytes b)
    with None assms show ?thesis
      by (auto simp: quote_path_segment_def quote_value_def cache_ok_def Let_def
          split: sum.splits)
  next
    case (PObj ob)
    with None assms show ?thesis
      by (auto simp: quote_path_segment_def quote_value_def cache_ok_def Let_def)
  qed
qed

lemma quote_segments_pure:
  "cache_ok e c \<Longrightarrow>
   fst (quote_segments e c xs) = quote_values e xs \<and> cache_ok e (snd (quote_segments e c xs))"
proof (induction xs arbitrary: c)
  case Nil
  then show ?case by simp
next
  case (Cons x xs)
  obtain r c1 where q: "quote_path_segment e c x PATH_SEGMENT_SAFE = (r, c1)"
    by (cases "quote_path_segment e c x PATH_SEGMENT_SAFE")
  have r: "r = quote_value e x PATH_SEGMENT_SAFE"
    using quote_path_segment_pure [OF Cons.prems, of x PATH_SEGMENT_SAFE] q by simp
  have ok1: "cache_ok e c1"
    using quote_path_segment_keeps [OF Cons.prems, of x PATH_SEGMENT_SAFE] q by simp
  obtain rs c2 where qs: "quote_segments e c1 xs = (rs, c2)"
    by (cases "quote_segments e c1 xs")
  have rs: "rs = quote_values e xs" and ok2: "cache_ok e c2"
    using Cons.IH [OF ok1] qs by simp_all
  show ?case
    using q r ok1 qs rs ok2 by (auto split: sum.splits)
qed

lemma join_path_tuple_pure:
  assumes "cache_ok e c"
  shows "fst (join_path_tuple e c t) =
           (if t = [] then Inr ''/''
            else (case quote_values e t of
                    Inl err \<Rightarrow> Inl err
                  | Inr qs \<Rightarrow> Inr (if join_str ''/'' qs \<noteq> [] then join_str ''/'' qs
                                   else ''/'')))"
    and "cache_ok e (snd (join_path_tuple e c t))"
proof -
  obtain rs c2 where qs: "quote_segments e c t = (rs, c2)"
    by (cases "quote_segments e c t")
  have rs: "rs = quote_values e t" and ok2: "cache_ok e c2"
    using quote_segments_pure [OF assms, of t] qs by simp_all
  show "fst (join_path_tuple e c t) =
           (if t = [] then Inr ''/''
            else (case quote_values e t of
                    Inl err \<Rightarrow> Inl err
                  | Inr qs \<Rightarrow> Inr (if join_str ''/'' qs \<noteq> [] then join_str ''/'' qs
                                   else ''/'')))"
    using qs rs by (auto simp: join_path_tuple_def split: sum.splits)
  show "cache_ok e (snd (join_path_tuple e c t))"
    using qs ok2 assms by (auto simp: join_path_tuple_def split: sum.splits)
qed

lemma quote_values_text:
  "quote_values e (map PStr segs) = Inr (map (\<lambda>s. url_quote e s PATH_SEGMENT_SAFE) segs)"
  by (induction segs) (simp_all add: quote_value_def)

lemma join_str_cons:
  "xs \<noteq> [] \<Longrightarrow> join_str sep (x # xs) = x @ sep @ join_str sep xs"
  by (cases xs) simp_all

lemma join_str_slashes:
  "xs \<noteq> [] \<Longrightarrow> join_str ''/'' ([] # xs) = concat (map (\<lambda>s. CHR ''/'' # s) xs)"
proof (induction xs rule: list_nonempty_induct)
  case (single x)
  show ?case by simp
next
  case (cons x xs)
  have "join_str ''/'' ([] # x # xs) = CHR ''/'' # x @ join_str ''/'' ([] # xs)"
    using cons.hyps by (cases xs) simp_all
  then show ?case using cons.IH by simp
qed

text \<open>
  C10. Quoting a segment that is neither text nor bytes (\<open>None\<close>, an integer) raises no
  type error: with a cache that satisfies its invariant, the result is the quoting of
  \<open>str(segment)\<close>, the same as quoting the text \<open>str(segment)\<close> itself, and the cache
  keeps its invariant.
\<close>

theorem quote_path_segment_coerces:
  assumes "cache_ok e c" and "cache_ok e c2"
  shows "fst (quote_path_segment e c (PObj ob) safe) = Inr (url_quote e (py_str ob) safe)
         \<and> fst (quote_path_segment e c (PObj ob) safe)
             = fst (quote_path_segment e c2 (PStr (py_str ob)) safe)
         \<and> fst (quote_path_segment e c (PObj ob) safe) \<noteq> Inl TypeError
         \<and> cache_ok e (snd (quote_path_segment e c (PObj ob) safe))"
  using quote_path_segment_pure [OF assms(1), of "PObj ob" safe]
    quote_path_segment_pure [OF assms(2), of "PStr (py_str ob)" safe]
    quote_path_segment_keeps [OF assms(1), of "PObj ob" safe]
  by (simp add: quote_value_def)

theorem quote_path_segment_coerces_witness:
  "cache_ok sample_env Map.empty
   \<and> fst (quote_path_segment sample_env Map.empty (PObj (OInt 42)) PATH_SEGMENT_SAFE)
       = Inr ''42''
   \<and> fst (quote_path_segment sample_env Map.empty (PObj (OInt 42)) PATH_SEGMENT_SAFE)
       = fst (quote_path_segment sample_env Map.empty (PStr ''42'') PATH_SEGMENT_SAFE)"
proof -
  have ok: "cache_ok sample_env Map.empty" by (rule cache_ok_empty)
  have s: "py_str (OInt 42) = ''42''" by code_simp
  have q: "url_quote sample_env ''42'' PATH_SEGMENT_SAFE = ''42''" by code_simp
  note t = quote_path_segment_coerces [OF ok ok, of "OInt 42" PATH_SEGMENT_SAFE]
  from t [unfolded s q] ok show ?thesis by blast
qed

section \<open>The join formula\<close>

text \<open>
  C2, as amended. With a cache that satisfies its invariant: the join of the empty tuple
  is \<open>/\<close>; the join of a non-empty tuple of text segments is the quoted segments joined by
  \<open>/\<close>, with no slash put in front, and \<open>/\<close> when that string is empty; a tuple that
  starts with the empty segment of an absolute path therefore gives \<open>/\<close> followed by the
  remaining quoted segments joined by \<open>/\<close> (when quoting the empty text gives the empty
  text).
\<close>

theorem join_path_tuple_formula:
  assumes "cache_ok e c"
  shows "fst (join_path_tuple e c []) = Inr ''/''
     \<and> (segs \<noteq> [] \<longrightarrow>
          fst (join_path_tuple e c (map PStr segs)) =
            Inr (if join_str ''/'' (map (\<lambda>s. url_quote e s PATH_SEGMENT_SAFE) segs) = []
                 then ''/''
                 else join_str ''/'' (map (\<lambda>s. url_quote e s PATH_SEGMENT_SAFE) segs)))
     \<and> (segs \<noteq> [] \<and> url_quote e [] PATH_SEGMENT_SAFE = [] \<longrightarrow>
          fst (join_path_tuple e c (PStr [] # map PStr segs)) =
            Inr (''/'' @ join_str ''/'' (map (\<lambda>s. url_quote e s PATH_SEGMENT_SAFE) segs)))"
proof -
  let ?q = "\<lambda>s. url_quote e s PATH_SEGMENT_SAFE"
  have a: "fst (join_path_tuple e c []) = Inr ''/''"
    by (simp add: join_path_tuple_def)
  have b: "fst (join_path_tuple e c (map PStr segs)) =
            Inr (if join_str ''/'' (map ?q segs) = [] then ''/'' else join_str ''/'' (map ?q segs))"
    if "segs \<noteq> []"
    using that by (simp add: join_path_tuple_pure(1) [OF assms] quote_values_text)
  have c: "fst (join_path_tuple e c (PStr [] # map PStr segs)) =
            Inr (''/'' @ join_str ''/'' (map ?q segs))"
    if "segs \<noteq> []" and "?q [] = []"
  proof -
    have "quote_values e (map PStr ([] # segs)) = Inr (map ?q ([] # segs))"
      by (rule quote_values_text)
    then have qv: "quote_values e (PStr [] # map PStr segs) = Inr ([] # map ?q segs)"
      using that(2) by simp
    have js: "join_str ''/'' ([] # map ?q segs) = ''/'' @ join_str ''/'' (map ?q segs)"
      using that(1) by (simp add: join_str_cons)
    show ?thesis
      by (simp add: join_path_tuple_pure(1) [OF assms] qv js del: quote_values.simps)
  qed
  from a b c show ?thesis by blast
qed

theorem join_path_tuple_formula_witness:
  "cache_ok sample_env Map.empty
   \<and> fst (join_path_tuple sample_env Map.empty []) = Inr ''/''
   \<and> fst (join_path_tuple sample_env Map.empty [PStr ''a'', PStr ''b c'']) = Inr ''a/b%20c''
   \<and> fst (join_path_tuple sample_env Map.empty [PStr [], PStr ''a'', PStr ''b c''])
       = Inr ''/a/b%20c''"
proof -
  have ok: "cache_ok sample_env Map.empty" by (rule cache_ok_empty)
  have ne: "[''a'', ''b c''] \<noteq> []" by simp
  have q0: "url_quote sample_env [] PATH_SEGMENT_SAFE = []" by code_simp
  have j: "join_str ''/'' (map (\<lambda>s. url_quote sample_env s PATH_SEGMENT_SAFE) [''a'', ''b c''])
           = ''a/b%20c''" by code_simp
  note t = join_path_tuple_formula [OF ok, of "[''a'', ''b c'']", unfolded j]
  from t ok ne q0 show ?thesis by simp
qed

text \<open>The join of the relative tuple \<open>('a', 'b')\<close> is \<open>a/b\<close>, not \<open>/\<close> followed by the
  joined segments.\<close>

theorem join_path_tuple_counterexample:
  "fst (join_path_tuple sample_env Map.empty [PStr ''a'', PStr ''b'']) = Inr ''a/b''
   \<and> fst (join_path_tuple sample_env Map.empty [PStr ''a'', PStr ''b''])
       \<noteq> Inr (''/'' @ join_str ''/''
                 (map (\<lambda>s. url_quote sample_env s PATH_SEGMENT_SAFE) [''a'', ''b'']))"
proof -
  have qa: "url_quote sample_env ''a'' PATH_SEGMENT_SAFE = ''a''" by code_simp
  have qb: "url_quote sample_env ''b'' PATH_SEGMENT_SAFE = ''b''" by code_simp
  show ?thesis
    by (simp add: join_path_tuple_pure(1) [OF cache_ok_empty] quote_value_def qa qb)
qed

section \<open>Decoding failures\<close>

lemma request_path_undecodable:
  "matchdict req = None \<Longrightarrow> path_info req = PathInfoDecodeError u \<Longrightarrow>
   request_path req = Inl (URLDecodeError (err_encoding u) (err_object u) (err_start u)
                             (err_end u) (err_reason u))"
  by (simp add: request_path_def)

text \<open>
  C6. When the bytes of the path are not valid UTF-8 (the decoder reports an error),
  \<open>traversal_path_info\<close> and \<open>traversal_path\<close> raise \<open>URLDecodeError\<close> with the
  encoding, object, start, end and reason of that error; a request that matched no route
  and whose \<open>path_info\<close> cannot be decoded makes the traverser raise the same error, so
  no dictionary is returned, and \<open>traverse\<close> passes the error on.
\<close>

theorem decode_failure_propagates:
  "(decode_utf8 e p = Inl u \<longrightarrow>
      traversal_path_info e p =
        Inl (URLDecodeError (err_encoding u) (err_object u) (err_start u) (err_end u)
               (err_reason u)))
   \<and> (decode_utf8 e (unquote_bytes_to_wsgi e b) = Inl u \<longrightarrow>
      traversal_path e (Raw b) =
        Inl (URLDecodeError (err_encoding u) (err_object u) (err_start u) (err_end u)
               (err_reason u)))
   \<and> (is_ascii b \<and> decode_utf8 e (unquote_bytes_to_wsgi e b) = Inl u \<longrightarrow>
      traversal_path e (Text b) =
        Inl (URLDecodeError (err_encoding u) (err_object u) (err_start u) (err_end u)
               (err_reason u)))
   \<and> (matchdict req = None \<and> path_info req = PathInfoDecodeError u \<longrightarrow>
      traverser_call e st root req =
        Inl (URLDecodeError (err_encoding u) (err_object u) (err_start u) (err_end u)
               (err_reason u))
      \<and> (\<forall>d. traverser_call e st root req \<noteq> Inr d))
   \<and> (is_ascii s \<and> matchdict (request_blank e s) = None
        \<and> path_info (request_blank e s) = PathInfoDecodeError u
        \<and> find_root st resource = Some rt \<longrightarrow>
      traverse e c st resource (PathStr s) =
        Some (Inl (URLDecodeError (err_encoding u) (err_object u) (err_start u) (err_end u)
               (err_reason u)), c))"
  by (auto simp: traversal_path_info_def traversal_path_def decode_path_info_def
      traverser_call_def request_path_undecodable traverse_def ascii_native_def)


theorem decode_failure_propagates_witness:
  "traversal_path_info sample_env [CHR ''/'', CHR 0xFF] =
     Inl (URLDecodeError ''utf-8'' [CHR ''/'', CHR 0xFF] 1 2 ''invalid start byte'')
   \<and> traversal_path sample_env (Raw ''/%FF'') =
     Inl (URLDecodeError ''utf-8'' [CHR ''/'', CHR 0xFF] 1 2 ''invalid start byte'')
   \<and> traversal_path sample_env (Text ''/%FF'') =
     Inl (URLDecodeError ''utf-8'' [CHR ''/'', CHR 0xFF] 1 2 ''invalid start byte'')
   \<and> traverser_call sample_env sample_store 0 (sample_blank ''/%FF'') =
     Inl (URLDecodeError ''utf-8'' [CHR ''/'', CHR 0xFF] 1 2 ''invalid start byte'')
   \<and> traverse sample_env Map.empty sample_store 0 (PathStr ''/%FF'') =
     Some (Inl (URLDecodeError ''utf-8'' [CHR ''/'', CHR 0xFF] 1 2 ''invalid start byte''),
           Map.empty)"
proof -
  let ?u = "\<lparr>err_encoding = ''utf-8'', err_object = [CHR ''/'', CHR 0xFF], err_start = 1,
             err_end = 2, err_reason = ''invalid start byte''\<rparr>"
  have d: "decode_utf8 sample_env [CHR ''/'', CHR 0xFF] = Inl ?u" by code_simp
  have q: "unquote_bytes_to_wsgi sample_env ''/%FF'' = [CHR ''/'', CHR 0xFF]" by code_simp
  have a: "is_ascii ''/%FF''" by code_simp
  have b: "request_blank sample_env ''/%FF'' = sample_blank ''/%FF''"
    by (simp add: sample_env_def)
  have m: "matchdict (sample_blank ''/%FF'') = None" by (simp add: sample_blank_def)
  have p: "path_info (sample_blank ''/%FF'') = PathInfoDecodeError ?u" by code_simp
  have r: "find_root sample_store 0 = Some 0"
    by (simp add: find_root_def lineage.simps sample_store_def)
  note t = decode_failure_propagates [where e = sample_env and p = "[CHR ''/'', CHR 0xFF]"
      and u = ?u and b = "''/%FF''" and req = "sample_blank ''/%FF''" and st = sample_store
      and root = 0 and s = "''/%FF''" and resource = 0 and rt = 0 and c = Map.empty]
  from t d q a b m p r show ?thesis by simp
qed


end
